theory Spec2Isabelle
  imports Complex_Main "HOL-Library.AList"
begin

section \<open>Python values\<close>

text \<open>
  A Python float is an IEEE double: a finite double is the rational number it denotes
  exactly, and the three special values are constructors of their own
  (\<open>json.loads\<close> accepts \<open>NaN\<close>, \<open>Infinity\<close> and \<open>-Infinity\<close>).
\<close>

datatype pyfloat = Fin rat | PosInf | NegInf | NaN

text \<open>
  The values that \<open>json.loads\<close> produces and \<open>json.dumps\<close> consumes. A Python
  \<open>dict\<close> keeps its keys in insertion order and has no duplicate key: it is an
  association list, read with \<^const>\<open>map_of\<close> and written with \<^const>\<open>AList.update\<close>
  (which replaces the value of a key in place and appends a new key at the end, as
  \<open>d[k] = v\<close> does).
\<close>

datatype json =
    JNull
  | JBool bool
  | JInt int
  | JFloat pyfloat
  | JStr string
  | JArr "json list"
  | JObj "(string \<times> json) list"

type_synonym pydict = "(string \<times> json) list"

text \<open>
  The exceptions that the handlers meet. The interpreter raises the first five; \<open>Raised m\<close>
  is any other \<open>Exception\<close> raised by a collaborator (the HTTP transport, the model
  client, \<open>raise Exception(...)\<close> in \<open>call_mongodb_api\<close>) whose \<open>str\<close> is \<open>m\<close>.
\<close>

datatype exn =
    TypeError
  | AttributeError
  | KeyError
  | JSONDecodeError
  | ValueError
  | Raised string

text \<open>Truth value testing, as \<open>if x\<close>, \<open>not x\<close> and \<open>x or y\<close> apply it.\<close>

fun truthy :: "json \<Rightarrow> bool" where
  "truthy JNull = False"
| "truthy (JBool b) = b"
| "truthy (JInt n) = (n \<noteq> 0)"
| "truthy (JFloat (Fin r)) = (r \<noteq> 0)"
| "truthy (JFloat f) = True"
| "truthy (JStr s) = (s \<noteq> [])"
| "truthy (JArr xs) = (xs \<noteq> [])"
| "truthy (JObj kvs) = (kvs \<noteq> [])"

text \<open>\<open>x or y\<close>\<close>

definition py_or :: "json \<Rightarrow> json \<Rightarrow> json" where
  "py_or x y = (if truthy x then x else y)"

text \<open>\<open>d.get(k, default)\<close> on a dict; \<open>d.get(k)\<close> has the default \<open>None\<close>.\<close>

definition dict_get :: "pydict \<Rightarrow> string \<Rightarrow> json \<Rightarrow> json" where
  "dict_get d k dflt = (case map_of d k of None \<Rightarrow> dflt | Some v \<Rightarrow> v)"

text \<open>
  \<open>x.get(k, default)\<close> on any decoded value: only a dict has the attribute \<open>get\<close>.
\<close>

fun py_get :: "json \<Rightarrow> string \<Rightarrow> json \<Rightarrow> exn + json" where
  "py_get (JObj d) k dflt = Inr (dict_get d k dflt)"
| "py_get _ k dflt = Inl AttributeError"

text \<open>\<open>s.startswith(p)\<close> and \<open>p in s\<close> on strings.\<close>

definition startswith :: "string \<Rightarrow> string \<Rightarrow> bool" where
  "startswith s p = (take (length p) s = p)"

fun substring :: "string \<Rightarrow> string \<Rightarrow> bool" where
  "substring p [] = (p = [])"
| "substring p (c # cs) = (startswith (c # cs) p \<or> substring p cs)"

text \<open>
  \<open>k in x\<close> for a string \<open>k\<close>: key membership on a dict, element membership on a
  list, substring test on a string, \<open>TypeError\<close> on everything else.
\<close>

fun py_contains :: "string \<Rightarrow> json \<Rightarrow> exn + bool" where
  "py_contains k (JObj d) = Inr (map_of d k \<noteq> None)"
| "py_contains k (JArr xs) = Inr (JStr k \<in> set xs)"
| "py_contains k (JStr s) = Inr (substring k s)"
| "py_contains k _ = Inl TypeError"

text \<open>
  \<open>x[k]\<close> for a string \<open>k\<close>: \<open>KeyError\<close> on a dict without the key, \<open>TypeError\<close>
  on a list or a string (their indices are integers) and on everything else.
\<close>

fun py_getitem :: "json \<Rightarrow> string \<Rightarrow> exn + json" where
  "py_getitem (JObj d) k = (case map_of d k of None \<Rightarrow> Inl KeyError | Some v \<Rightarrow> Inr v)"
| "py_getitem _ k = Inl TypeError"

text \<open>
  \<open>x > 0\<close>: numbers compare (\<open>bool\<close> is a subclass of \<open>int\<close>, and every comparison
  with \<open>NaN\<close> is false), everything else raises \<open>TypeError\<close>.
\<close>

fun py_gt0 :: "json \<Rightarrow> exn + bool" where
  "py_gt0 (JInt n) = Inr (0 < n)"
| "py_gt0 (JBool b) = Inr b"
| "py_gt0 (JFloat (Fin r)) = Inr (0 < r)"
| "py_gt0 (JFloat PosInf) = Inr True"
| "py_gt0 (JFloat NegInf) = Inr False"
| "py_gt0 (JFloat NaN) = Inr False"
| "py_gt0 _ = Inl TypeError"

section \<open>The world outside the scripts\<close>

text \<open>
  What the scripts reach through libraries is a parameter of the model:
  \<^item> \<open>loads\<close>: \<open>json.loads\<close> on text, \<open>None\<close> when it raises \<open>JSONDecodeError\<close>;
  \<^item> \<open>mongodb\<close>: what \<open>call_mongodb_api\<close> gets for an endpoint and a payload, the
    decoded response or the exception it raises;
  \<^item> \<open>bedrock\<close>: what \<open>invoke_model\<close> and reading the response body give for a
    request body, the text read or the exception raised;
  \<^item> \<open>utcnow\<close>: \<open>datetime.utcnow().isoformat()\<close> (read at most once per request);
  \<^item> \<open>str_exc\<close>: \<open>str(e)\<close> for an exception that the interpreter raises.

  Every remote invocation is recorded, in order, in a log of calls. \<open>print\<close> is not
  modelled. A response's \<open>body\<close> is the value that the source hands to \<open>json.dumps\<close>.
\<close>

record env =
  loads :: "string \<Rightarrow> json option"
  mongodb :: "string \<Rightarrow> json \<Rightarrow> exn + json"
  bedrock :: "json \<Rightarrow> exn + string"
  utcnow :: string
  str_exc :: "exn \<Rightarrow> string"

datatype call = MongoCall string json | InvokeModel json

record response =
  statusCode :: int
  headers :: "(string \<times> string) list"
  body :: json

text \<open>\<open>str(e)\<close>\<close>

fun str_of :: "env \<Rightarrow> exn \<Rightarrow> string" where
  "str_of w (Raised m) = m"
| "str_of w e = str_exc w e"

text \<open>A computation may raise and appends to the log of calls.\<close>

type_synonym 'a comp = "call list \<Rightarrow> (exn + 'a) \<times> call list"

definition ret :: "'a \<Rightarrow> 'a comp" where
  "ret x = (\<lambda>s. (Inr x, s))"

definition lift :: "exn + 'a \<Rightarrow> 'a comp" where
  "lift r = (\<lambda>s. (r, s))"

definition bnd :: "'a comp \<Rightarrow> ('a \<Rightarrow> 'b comp) \<Rightarrow> 'b comp" where
  "bnd m f = (\<lambda>s. case m s of (Inl e, s') \<Rightarrow> (Inl e, s') | (Inr x, s') \<Rightarrow> f x s')"

text \<open>\<open>json.loads(x)\<close>: \<open>TypeError\<close> unless \<open>x\<close> is text.\<close>

fun json_loads :: "env \<Rightarrow> json \<Rightarrow> exn + json" where
  "json_loads w (JStr s) = (case loads w s of None \<Rightarrow> Inl JSONDecodeError | Some j \<Rightarrow> Inr j)"
| "json_loads w _ = Inl TypeError"

definition json_headers :: "(string \<times> string) list" where
  "json_headers = [(''Content-Type'', ''application/json'')]"

definition respond :: "int \<Rightarrow> json \<Rightarrow> response" where
  "respond code b = \<lparr>statusCode = code, headers = json_headers, body = b\<rparr>"

section \<open>todos\_service\_lambda\_template.py\<close>

definition call_mongodb_api :: "env \<Rightarrow> string \<Rightarrow> json \<Rightarrow> json comp" where
  "call_mongodb_api w endpoint data =
     (\<lambda>s. (mongodb w endpoint data, s @ [MongoCall endpoint data]))"

definition list_todos :: "env \<Rightarrow> json comp" where
  "list_todos w =
     bnd (call_mongodb_api w ''find''
            (JObj [(''database'', JStr ''todos''), (''collection'', JStr ''items''),
                   (''filter'', JObj [])]))
         (\<lambda>result. lift (py_get result ''documents'' (JArr [])))"

definition get_todo_by_id :: "env \<Rightarrow> json \<Rightarrow> json comp" where
  "get_todo_by_id w todo_id =
     bnd (call_mongodb_api w ''findOne''
            (JObj [(''database'', JStr ''todos''), (''collection'', JStr ''items''),
                   (''filter'', JObj [(''_id'', todo_id)])]))
         (\<lambda>result. lift (py_get result ''document'' JNull))"

definition create_todo :: "env \<Rightarrow> json \<Rightarrow> json \<Rightarrow> json comp" where
  "create_todo w title description =
     (let now = JStr (utcnow w);
          document = JObj [(''title'', title),
                           (''description'', py_or description (JStr '''')),
                           (''completed'', JBool False),
                           (''created_at'', now),
                           (''updated_at'', now)]
      in call_mongodb_api w ''insertOne''
           (JObj [(''database'', JStr ''todos''), (''collection'', JStr ''items''),
                  (''document'', document)]))"

definition update_todo :: "env \<Rightarrow> json \<Rightarrow> pydict \<Rightarrow> json comp" where
  "update_todo w todo_id updates =
     (let updates' = AList.update ''updated_at'' (JStr (utcnow w)) updates
      in call_mongodb_api w ''updateOne''
           (JObj [(''database'', JStr ''todos''), (''collection'', JStr ''items''),
                  (''filter'', JObj [(''_id'', todo_id)]),
                  (''update'', JObj [(''$set'', JObj updates')])]))"

definition delete_todo :: "env \<Rightarrow> json \<Rightarrow> json comp" where
  "delete_todo w todo_id =
     call_mongodb_api w ''deleteOne''
       (JObj [(''database'', JStr ''todos''), (''collection'', JStr ''items''),
              (''filter'', JObj [(''_id'', todo_id)])])"

text \<open>\<open>if k in body: updates[k] = body[k]\<close>\<close>

definition copy_field :: "json \<Rightarrow> string \<Rightarrow> pydict \<Rightarrow> exn + pydict" where
  "copy_field b k updates =
     (case py_contains k b of
        Inl e \<Rightarrow> Inl e
      | Inr False \<Rightarrow> Inr updates
      | Inr True \<Rightarrow>
          (case py_getitem b k of
             Inl e \<Rightarrow> Inl e
           | Inr v \<Rightarrow> Inr (AList.update k v updates)))"

definition collect_updates :: "json \<Rightarrow> exn + pydict" where
  "collect_updates b =
     (case copy_field b ''title'' [] of
        Inl e \<Rightarrow> Inl e
      | Inr u1 \<Rightarrow>
          (case copy_field b ''description'' u1 of
             Inl e \<Rightarrow> Inl e
           | Inr u2 \<Rightarrow> copy_field b ''completed'' u2))"

text \<open>\<open>path_parameters = event.get('pathParameters') or {}\<close>\<close>

definition path_parameters :: "pydict \<Rightarrow> json" where
  "path_parameters event = py_or (dict_get event ''pathParameters'' JNull) (JObj [])"

text \<open>The handler's \<open>try\<close> block, one definition for each branch on the method.\<close>

definition handle_get :: "env \<Rightarrow> pydict \<Rightarrow> response comp" where
  "handle_get w event =
     bnd (lift (py_get (path_parameters event) ''id'' JNull)) (\<lambda>todo_id.
       if truthy todo_id then
         bnd (get_todo_by_id w todo_id) (\<lambda>todo.
           if truthy todo then ret (respond 200 todo)
           else ret (respond 404 (JObj [(''error'', JStr ''Todo not found'')])))
       else
         bnd (list_todos w) (\<lambda>todos.
           ret (respond 200 (JObj [(''todos'', todos)]))))"

definition handle_post :: "env \<Rightarrow> pydict \<Rightarrow> response comp" where
  "handle_post w event =
     bnd (lift (json_loads w (dict_get event ''body'' (JStr ''{}'')))) (\<lambda>b.
     bnd (lift (py_get b ''title'' JNull)) (\<lambda>title.
     bnd (lift (py_get b ''description'' JNull)) (\<lambda>description.
       if \<not> truthy title then
         ret (respond 400 (JObj [(''error'', JStr ''title is required'')]))
       else
         bnd (create_todo w title description) (\<lambda>result.
           ret (respond 201 result)))))"

definition handle_put :: "env \<Rightarrow> pydict \<Rightarrow> response comp" where
  "handle_put w event =
     bnd (lift (py_get (path_parameters event) ''id'' JNull)) (\<lambda>todo_id.
       if \<not> truthy todo_id then
         ret (respond 400 (JObj [(''error'', JStr ''todo id is required'')]))
       else
         bnd (lift (json_loads w (dict_get event ''body'' (JStr ''{}'')))) (\<lambda>b.
         bnd (lift (collect_updates b)) (\<lambda>updates.
           if updates = [] then
             ret (respond 400 (JObj [(''error'', JStr ''No fields to update'')]))
           else
             bnd (update_todo w todo_id updates) (\<lambda>result.
             bnd (lift (py_get result ''modifiedCount'' (JInt 0))) (\<lambda>n.
             bnd (lift (py_gt0 n)) (\<lambda>modified.
               if modified then ret (respond 200 result)
               else ret (respond 404 (JObj [(''error'', JStr ''Todo not found'')]))))))))"

definition handle_delete :: "env \<Rightarrow> pydict \<Rightarrow> response comp" where
  "handle_delete w event =
     bnd (lift (py_get (path_parameters event) ''id'' JNull)) (\<lambda>todo_id.
       if \<not> truthy todo_id then
         ret (respond 400 (JObj [(''error'', JStr ''todo id is required'')]))
       else
         bnd (delete_todo w todo_id) (\<lambda>result.
         bnd (lift (py_get result ''deletedCount'' (JInt 0))) (\<lambda>n.
         bnd (lift (py_gt0 n)) (\<lambda>deleted.
           if deleted then
             ret (respond 200 (JObj [(''message'', JStr ''Todo deleted successfully'')]))
           else ret (respond 404 (JObj [(''error'', JStr ''Todo not found'')]))))))"

definition todos_try :: "env \<Rightarrow> pydict \<Rightarrow> response comp" where
  "todos_try w event =
     (let http_method = dict_get event ''httpMethod'' JNull in
      if http_method = JStr ''GET'' then handle_get w event
      else if http_method = JStr ''POST'' then handle_post w event
      else if http_method = JStr ''PUT'' then handle_put w event
      else if http_method = JStr ''DELETE'' then handle_delete w event
      else ret (respond 405 (JObj [(''error'', JStr ''Method not allowed'')])))"

text \<open>
  \<open>lambda_handler\<close> of the todos service: the \<open>try\<close> block, and the \<open>except Exception\<close>
  clause that answers 500 with \<open>str(e)\<close> under \<open>details\<close>. It starts from an empty log
  and returns the response with the calls it made.
\<close>

definition todos_lambda_handler :: "env \<Rightarrow> pydict \<Rightarrow> response \<times> call list" where
  "todos_lambda_handler w event =
     (case todos_try w event [] of
        (Inr r, s) \<Rightarrow> (r, s)
      | (Inl e, s) \<Rightarrow>
          (respond 500 (JObj [(''error'', JStr ''Internal server error''),
                              (''details'', JStr (str_of w e))]), s))"

section \<open>semantic\_search\_lambda\_template.py\<close>

text \<open>
  \<open>generate_embedding\<close>: the \<open>try\<close> block invokes the model, decodes the body read and
  takes its \<open>embedding\<close> field; the \<open>except\<close> clause prints and re-raises. Creating the
  client is not modelled.
\<close>

definition embedding_try :: "env \<Rightarrow> json \<Rightarrow> json comp" where
  "embedding_try w text =
     (\<lambda>s. (case bedrock w (JObj [(''inputText'', text)]) of
              Inl e \<Rightarrow> Inl e
            | Inr raw \<Rightarrow>
                (case json_loads w (JStr raw) of
                   Inl e \<Rightarrow> Inl e
                 | Inr response_body \<Rightarrow> py_getitem response_body ''embedding''),
            s @ [InvokeModel (JObj [(''inputText'', text)])]))"

definition search_generate_embedding :: "env \<Rightarrow> json \<Rightarrow> json comp" where
  "search_generate_embedding w text =
     (\<lambda>s. case embedding_try w text s of
             (Inl e, s') \<Rightarrow> (Inl e, s')
           | (Inr v, s') \<Rightarrow> (Inr v, s'))"

definition search_call_mongodb_api :: "env \<Rightarrow> json \<Rightarrow> json comp" where
  "search_call_mongodb_api w pipeline =
     (let data = JObj [(''database'', JStr ''travel''), (''collection'', JStr ''asia''),
                       (''pipeline'', pipeline)]
      in (\<lambda>s. (mongodb w ''aggregate'' data, s @ [MongoCall ''aggregate'' data])))"

definition search_pipeline :: "json \<Rightarrow> json \<Rightarrow> json" where
  "search_pipeline query_vector limit =
     JArr [JObj [(''$vectorSearch'',
                  JObj [(''index'', JStr ''vector_index''),
                        (''path'', JStr ''details_embedding''),
                        (''queryVector'', query_vector),
                        (''numCandidates'', JInt 100),
                        (''limit'', limit)])],
           JObj [(''$project'',
                  JObj [(''_id'', JInt 1),
                        (''index'', JInt 1),
                        (''Place Name'', JInt 1),
                        (''score'', JObj [(''$meta'', JStr ''vectorSearchScore'')])])]]"

definition search_try :: "env \<Rightarrow> pydict \<Rightarrow> response comp" where
  "search_try w event =
     bnd (lift (json_loads w (dict_get event ''body'' (JStr ''{}'')))) (\<lambda>b.
     bnd (lift (py_get b ''query'' JNull)) (\<lambda>query.
     bnd (lift (py_get b ''limit'' (JInt 5))) (\<lambda>limit.
       if \<not> truthy query then
         ret (respond 400 (JObj [(''error'', JStr ''query parameter is required'')]))
       else
         bnd (search_generate_embedding w query) (\<lambda>query_vector.
         bnd (search_call_mongodb_api w (search_pipeline query_vector limit)) (\<lambda>result.
           ret (respond 200 result))))))"

definition search_lambda_handler :: "env \<Rightarrow> pydict \<Rightarrow> response \<times> call list" where
  "search_lambda_handler w event =
     (case search_try w event [] of
        (Inr r, s) \<Rightarrow> (r, s)
      | (Inl e, s) \<Rightarrow> (respond 500 (JObj [(''error'', JStr ''Internal server error'')]), s))"

section \<open>test\_api\_template.py\<close>

text \<open>
  The doubles that the literals \<open>0.1\<close>, \<open>0.2\<close>, \<open>0.3\<close> and \<open>0.0\<close> denote, and the
  list \<open>[0.1, 0.2, 0.3] + [0.0] * 1533\<close>.
\<close>

definition fallback_vector :: json where
  "fallback_vector =
     JArr ([JFloat (Fin (3602879701896397 / 36028797018963968)),
            JFloat (Fin (3602879701896397 / 18014398509481984)),
            JFloat (Fin (5404319552844595 / 18014398509481984))]
           @ replicate 1533 (JFloat (Fin 0)))"

text \<open>Here the \<open>except\<close> clause prints and returns the example vector.\<close>

definition test_api_generate_embedding :: "env \<Rightarrow> json \<Rightarrow> json comp" where
  "test_api_generate_embedding w text =
     (\<lambda>s. case embedding_try w text s of
             (Inl e, s') \<Rightarrow> (Inr fallback_vector, s')
           | (Inr v, s') \<Rightarrow> (Inr v, s'))"

text \<open>
  \<open>make_request\<close> posts the payload; the status and text that it returns are only printed,
  so the result here is what the transport gives.
\<close>

definition make_request :: "env \<Rightarrow> string \<Rightarrow> json \<Rightarrow> json comp" where
  "make_request w endpoint data =
     (\<lambda>s. (mongodb w endpoint data, s @ [MongoCall endpoint data]))"

definition test_api_pipeline :: "json \<Rightarrow> json" where
  "test_api_pipeline query_vector =
     JArr [JObj [(''$vectorSearch'',
                  JObj [(''index'', JStr ''vector_index''),
                        (''path'', JStr ''details_embedding''),
                        (''queryVector'', query_vector),
                        (''numCandidates'', JInt 100),
                        (''limit'', JInt 5)])],
           JObj [(''$project'',
                  JObj [(''_id'', JInt 1),
                        (''index'', JInt 1),
                        (''Place Name'', JInt 1),
                        (''score'', JObj [(''$meta'', JStr ''vectorSearchScore'')])])]]"

text \<open>The third test of the script's main block: the vector search.\<close>

definition test_api_vector_search :: "env \<Rightarrow> json comp" where
  "test_api_vector_search w =
     bnd (test_api_generate_embedding w (JStr ''Find travel recommendations for Asia''))
       (\<lambda>query_vector.
          make_request w ''aggregate''
            (JObj [(''database'', JStr ''travel''), (''collection'', JStr ''asia''),
                   (''pipeline'', test_api_pipeline query_vector)]))"

section \<open>mdb\_import\_template.py\<close>

text \<open>
  The file is taken as the rows that \<open>csv.reader\<close> yields for it, each a list of cells;
  the first is the header. \<open>csv.DictReader\<close> makes a dict of each further row that is
  not empty: \<open>dict(zip(fieldnames, row))\<close>, in which a repeated name keeps its first
  place and its last cell, then the cells beyond the header as a list under the key
  \<open>None\<close>, or \<open>None\<close> under each name beyond the cells. So a key of such a dict is a
  name or \<open>None\<close>.
\<close>

type_synonym csvdict = "(string option \<times> json) list"

definition dict_zip :: "string list \<Rightarrow> string list \<Rightarrow> csvdict" where
  "dict_zip fieldnames row =
     foldl (\<lambda>d (k, v). AList.update (Some k) (JStr v) d) [] (zip fieldnames row)"

definition dict_reader_row :: "string list \<Rightarrow> string list \<Rightarrow> csvdict" where
  "dict_reader_row fieldnames row =
     (let d = dict_zip fieldnames row;
          lf = length fieldnames;
          lr = length row
      in if lf < lr then AList.update None (JArr (map JStr (drop lf row))) d
         else if lf > lr
           then foldl (\<lambda>d key. AList.update (Some key) JNull d) d (drop lr fieldnames)
         else d)"

definition dict_reader :: "string list list \<Rightarrow> csvdict list" where
  "dict_reader lines =
     (case lines of
        [] \<Rightarrow> []
      | fieldnames # rows \<Rightarrow>
          map (dict_reader_row fieldnames) (filter (\<lambda>row. row \<noteq> []) rows))"

text \<open>
  The builtin \<open>float\<close> and the collection's \<open>insert_one\<close> are parameters:
  \<open>pyfloat_of\<close> gives the float or the exception raised, \<open>insert_one\<close> the exception
  raised, if any. Logging is not modelled.
\<close>

text \<open>\<open>row[column]\<close>\<close>

definition row_getitem :: "csvdict \<Rightarrow> string option \<Rightarrow> exn + json" where
  "row_getitem row column =
     (case map_of row column of None \<Rightarrow> Inl KeyError | Some v \<Rightarrow> Inr v)"

text \<open>
  The loop over \<open>row.keys()\<close>, with the two accumulators \<open>detail_embedding\<close> and
  \<open>new_row\<close>. The key \<open>None\<close> has no \<open>startswith\<close>.
\<close>

fun columns_loop ::
  "(json \<Rightarrow> exn + pyfloat) \<Rightarrow> csvdict \<Rightarrow> string option list \<Rightarrow> pyfloat list \<Rightarrow> pydict
     \<Rightarrow> exn + (pyfloat list \<times> pydict)" where
  "columns_loop pyfloat_of row [] detail_embedding new_row = Inr (detail_embedding, new_row)"
| "columns_loop pyfloat_of row (None # columns) detail_embedding new_row = Inl AttributeError"
| "columns_loop pyfloat_of row (Some column # columns) detail_embedding new_row =
     (if startswith column ''details_embedding'' then
        (case row_getitem row (Some column) of
           Inl e \<Rightarrow> Inl e
         | Inr v \<Rightarrow>
             (case pyfloat_of v of
                Inl e \<Rightarrow> Inl e
              | Inr f \<Rightarrow>
                  columns_loop pyfloat_of row columns (detail_embedding @ [f]) new_row))
      else
        (case row_getitem row (Some column) of
           Inl e \<Rightarrow> Inl e
         | Inr v \<Rightarrow>
             columns_loop pyfloat_of row columns detail_embedding
               (AList.update column v new_row)))"

definition build_record :: "(json \<Rightarrow> exn + pyfloat) \<Rightarrow> csvdict \<Rightarrow> exn + pydict" where
  "build_record pyfloat_of row =
     (case columns_loop pyfloat_of row (map fst row) [] [] of
        Inl e \<Rightarrow> Inl e
      | Inr (detail_embedding, new_row) \<Rightarrow>
          Inr (AList.update ''details_embedding'' (JArr (map JFloat detail_embedding)) new_row))"

text \<open>
  The loop over the rows. Its state is the counter \<open>index\<close> and the documents inserted
  so far; it returns the exception that stopped it, if any, with that state.
\<close>

fun import_rows ::
  "(json \<Rightarrow> exn + pyfloat) \<Rightarrow> (pydict \<Rightarrow> exn option) \<Rightarrow> int \<Rightarrow> pydict list \<Rightarrow> csvdict list
     \<Rightarrow> exn option \<times> int \<times> pydict list" where
  "import_rows pyfloat_of insert_one index inserted [] = (None, index, inserted)"
| "import_rows pyfloat_of insert_one index inserted (row # rows) =
     (let row' = AList.update (Some ''index'') (JInt index) row;
          index' = index + 1
      in case build_record pyfloat_of row' of
           Inl e \<Rightarrow> (Some e, index', inserted)
         | Inr new_row \<Rightarrow>
             (case insert_one new_row of
                Some e \<Rightarrow> (Some e, index', inserted)
              | None \<Rightarrow> import_rows pyfloat_of insert_one index' (inserted @ [new_row]) rows))"

definition import_csv ::
  "(json \<Rightarrow> exn + pyfloat) \<Rightarrow> (pydict \<Rightarrow> exn option) \<Rightarrow> string list list
     \<Rightarrow> exn option \<times> int \<times> pydict list" where
  "import_csv pyfloat_of insert_one lines =
     import_rows pyfloat_of insert_one 1 [] (dict_reader lines)"

section \<open>Auxiliary notions for the statements\<close>

text \<open>
  The recognized fields of a dict body, in the order in which the handler tests them:
  what \<open>updates\<close> holds after the three \<open>if k in body\<close> statements.
\<close>

definition recognized :: "pydict \<Rightarrow> pydict" where
  "recognized b =
     concat (map (\<lambda>k. case map_of b k of None \<Rightarrow> [] | Some v \<Rightarrow> [(k, v)])
               [''title'', ''description'', ''completed''])"

text \<open>
  The items of a row that has one cell for each name of the header, and a dict with
  names for keys as a row of the reader. When the names of the header are distinct,
  the reader's dict of such a row holds just these items.
\<close>

definition cell_items :: "(string \<times> string) list \<Rightarrow> pydict" where
  "cell_items cells = map (\<lambda>(k, v). (k, JStr v)) cells"


section \<open>A concrete world\<close>

text \<open>
  One world in which the statements below can be run: a decoder for a few request and
  response texts, a database that matches a todo without modifying or deleting it, and a
  model that knows one query.
\<close>

definition demo_loads :: "string \<Rightarrow> json option" where
  \<open>demo_loads s =
     (if s = ''{}'' then Some (JObj [])
      else if s = ''{"title": "a"}'' then Some (JObj [(''title'', JStr ''a'')])
      else if s = ''{"title": "a", "description": "d"}''
        then Some (JObj [(''title'', JStr ''a''), (''description'', JStr ''d'')])
      else if s = ''{"completed": true}'' then Some (JObj [(''completed'', JBool True)])
      else if s = ''{"limit": 5}'' then Some (JObj [(''limit'', JInt 5)])
      else if s = ''{"query": "beach"}'' then Some (JObj [(''query'', JStr ''beach'')])
      else if s = ''{"query": "beach", "limit": 3}''
        then Some (JObj [(''query'', JStr ''beach''), (''limit'', JInt 3)])
      else if s = ''{"embedding": [0.5]}''
        then Some (JObj [(''embedding'', JArr [JFloat (Fin (1 / 2))])])
      else None)\<close>

definition demo_mongodb :: "string \<Rightarrow> json \<Rightarrow> exn + json" where
  "demo_mongodb endpoint data =
     (if endpoint = ''updateOne''
        then Inr (JObj [(''matchedCount'', JInt 1), (''modifiedCount'', JInt 0)])
      else if endpoint = ''deleteOne'' then Inr (JObj [(''deletedCount'', JInt 0)])
      else if endpoint = ''find'' then Inl (Raised ''MongoDB API error: 403'')
      else Inr (JObj [(''insertedId'', JStr ''1'')]))"

definition demo_bedrock :: "json \<Rightarrow> exn + string" where
  \<open>demo_bedrock request =
     (if request = JObj [(''inputText'', JStr ''beach'')] then Inr ''{"embedding": [0.5]}''
      else Inl (Raised ''timeout''))\<close>

definition demo_env :: env where
  "demo_env = \<lparr>loads = demo_loads, mongodb = demo_mongodb, bedrock = demo_bedrock,
                utcnow = ''2024-01-01T00:00:00'', str_exc = (\<lambda>e. ''error'')\<rparr>"

text \<open>A \<open>float\<close> that reads two texts, and an \<open>insert_one\<close> that never fails.\<close>

definition demo_float :: "json \<Rightarrow> exn + pyfloat" where
  "demo_float v =
     (if v = JStr ''0.5'' then Inr (Fin (1 / 2))
      else if v = JStr ''2'' then Inr (Fin 2)
      else Inl ValueError)"


definition demo_insert_one :: "pydict \<Rightarrow> exn option" where
  "demo_insert_one document = None"




section \<open>Running a computation\<close>

lemma bnd_lift: "bnd (lift r) f s = (case r of Inl e \<Rightarrow> (Inl e, s) | Inr x \<Rightarrow> f x s)"
  by (simp add: bnd_def lift_def split: sum.splits)

lemma ret_apply: "ret x s = (Inr x, s)"
  by (simp add: ret_def)

lemma call_apply: "call_mongodb_api w ep d s = (mongodb w ep d, s @ [MongoCall ep d])"
  by (simp add: call_mongodb_api_def)

lemma bnd_call:
  "bnd (call_mongodb_api w ep d) f s =
     (case mongodb w ep d of
        Inl e \<Rightarrow> (Inl e, s @ [MongoCall ep d])
      | Inr x \<Rightarrow> f x (s @ [MongoCall ep d]))"
  by (simp add: bnd_def call_mongodb_api_def split: sum.splits)

lemma embedding_try_apply:
  "embedding_try w text s =
     (case bedrock w (JObj [(''inputText'', text)]) of
        Inl e \<Rightarrow> Inl e
      | Inr raw \<Rightarrow>
          (case json_loads w (JStr raw) of
             Inl e \<Rightarrow> Inl e
           | Inr response_body \<Rightarrow> py_getitem response_body ''embedding''),
      s @ [InvokeModel (JObj [(''inputText'', text)])])"
  by (simp add: embedding_try_def)

lemma search_generate_embedding_apply:
  "search_generate_embedding w text s = embedding_try w text s"
  by (simp add: search_generate_embedding_def split: prod.splits sum.splits)

lemma bnd_embedding:
  "bnd (search_generate_embedding w text) f s =
     (case fst (embedding_try w text s) of
        Inl e \<Rightarrow> (Inl e, s @ [InvokeModel (JObj [(''inputText'', text)])])
      | Inr v \<Rightarrow> f v (s @ [InvokeModel (JObj [(''inputText'', text)])]))"
  by (simp add: bnd_def search_generate_embedding_apply embedding_try_def split: sum.splits)

lemma bnd_search_call:
  "bnd (search_call_mongodb_api w p) f s =
     (let data = JObj [(''database'', JStr ''travel''), (''collection'', JStr ''asia''),
                       (''pipeline'', p)]
      in case mongodb w ''aggregate'' data of
           Inl e \<Rightarrow> (Inl e, s @ [MongoCall ''aggregate'' data])
         | Inr x \<Rightarrow> f x (s @ [MongoCall ''aggregate'' data]))"
  by (simp add: bnd_def search_call_mongodb_api_def Let_def split: sum.splits)

section \<open>The todos handler, branch by branch\<close>

lemma todos_put:
  "dict_get event ''httpMethod'' JNull = JStr ''PUT'' \<Longrightarrow>
   todos_try w event = handle_put w event"
  by (simp add: todos_try_def)

lemma todos_delete:
  "dict_get event ''httpMethod'' JNull = JStr ''DELETE'' \<Longrightarrow>
   todos_try w event = handle_delete w event"
  by (simp add: todos_try_def)

lemma path_parameters_dict:
  assumes "dict_get event ''pathParameters'' JNull = JObj pp"
    and "truthy (dict_get pp ''id'' JNull)"
  shows "path_parameters event = JObj pp"
  using assms by (cases pp) (auto simp: path_parameters_def py_or_def dict_get_def)

lemma collect_updates_dict: "collect_updates (JObj b) = Inr (recognized b)"
  by (simp add: collect_updates_def copy_field_def recognized_def split: option.splits)

lemma recognized_empty:
  "recognized b = [] \<longleftrightarrow>
     map_of b ''title'' = None \<and> map_of b ''description'' = None \<and>
     map_of b ''completed'' = None"
  by (auto simp: recognized_def split: option.splits)

text \<open>So the updates that the handler passes on hold recognized fields only.\<close>

lemma recognized_keys:
  "fst ` set (recognized b) \<subseteq> {''title'', ''description'', ''completed''}"
  by (auto simp: recognized_def split: option.splits)

lemma handle_post_calls:
  assumes "json_loads w (dict_get event ''body'' (JStr ''{}'')) = Inr (JObj b)"
    and "truthy (dict_get b ''title'' JNull)"
  shows "snd (handle_post w event []) =
           [MongoCall ''insertOne''
              (JObj [(''database'', JStr ''todos''), (''collection'', JStr ''items''),
                     (''document'',
                      JObj [(''title'', dict_get b ''title'' JNull),
                            (''description'',
                             if truthy (dict_get b ''description'' JNull)
                             then dict_get b ''description'' JNull else JStr ''''),
                            (''completed'', JBool False),
                            (''created_at'', JStr (utcnow w)),
                            (''updated_at'', JStr (utcnow w))])])]"
  using assms
  by (simp add: handle_post_def bnd_lift bnd_call create_todo_def py_or_def
      ret_apply Let_def split: sum.splits)

lemma handle_put_dict:
  assumes "dict_get event ''pathParameters'' JNull = JObj pp"
    and "truthy (dict_get pp ''id'' JNull)"
    and "json_loads w (dict_get event ''body'' (JStr ''{}'')) = Inr (JObj b)"
    and "recognized b \<noteq> []"
  shows "handle_put w event [] =
           bnd (update_todo w (dict_get pp ''id'' JNull) (recognized b)) (\<lambda>result.
             bnd (lift (py_get result ''modifiedCount'' (JInt 0))) (\<lambda>n.
             bnd (lift (py_gt0 n)) (\<lambda>modified.
               if modified then ret (respond 200 result)
               else ret (respond 404 (JObj [(''error'', JStr ''Todo not found'')]))))) []"
  using assms(2,3,4)
  by (simp add: handle_put_def path_parameters_dict[OF assms(1,2)] bnd_lift
      collect_updates_dict)

lemma handle_delete_dict:
  assumes "dict_get event ''pathParameters'' JNull = JObj pp"
    and "truthy (dict_get pp ''id'' JNull)"
  shows "handle_delete w event [] =
           bnd (delete_todo w (dict_get pp ''id'' JNull)) (\<lambda>result.
             bnd (lift (py_get result ''deletedCount'' (JInt 0))) (\<lambda>n.
             bnd (lift (py_gt0 n)) (\<lambda>deleted.
               if deleted then
                 ret (respond 200 (JObj [(''message'', JStr ''Todo deleted successfully'')]))
               else ret (respond 404 (JObj [(''error'', JStr ''Todo not found'')]))))) []"
  using assms(2)
  by (simp add: handle_delete_def path_parameters_dict[OF assms] bnd_lift)

text \<open>
  What each handler's \<open>except\<close> clause answers when its \<open>try\<close> block raises \<open>e\<close>: the
  search handler the fixed body, the todos handler the fixed error with \<open>str(e)\<close> next
  to it.
\<close>

lemma search_handler_except:
  "fst (search_try w event []) = Inl e \<Longrightarrow>
   fst (search_lambda_handler w event) =
     respond 500 (JObj [(''error'', JStr ''Internal server error'')])"
  by (cases "search_try w event []") (simp add: search_lambda_handler_def)

lemma todos_handler_except:
  "fst (todos_try w event []) = Inl e \<Longrightarrow>
   fst (todos_lambda_handler w event) =
     respond 500 (JObj [(''error'', JStr ''Internal server error''),
                        (''details'', JStr (str_of w e))])"
  by (cases "todos_try w event []") (simp add: todos_lambda_handler_def)

text \<open>
  A PUT request with an id whose body is the text of a dict with none of the recognized
  fields: 400, and no call.
\<close>

lemma put_dict_without_recognized_fields:
  assumes "dict_get event ''httpMethod'' JNull = JStr ''PUT''"
    and "dict_get event ''pathParameters'' JNull = JObj pp"
    and "truthy (dict_get pp ''id'' JNull)"
    and "json_loads w (dict_get event ''body'' (JStr ''{}'')) = Inr (JObj b)"
    and "map_of b ''title'' = None"
    and "map_of b ''description'' = None"
    and "map_of b ''completed'' = None"
  shows "todos_lambda_handler w event =
           (respond 400 (JObj [(''error'', JStr ''No fields to update'')]), [])"
proof -
  have "recognized b = []"
    using assms(5,6,7) by (simp add: recognized_empty)
  then have "handle_put w event [] =
               (Inr (respond 400 (JObj [(''error'', JStr ''No fields to update'')])), [])"
    using assms(3,4)
    by (simp add: handle_put_def path_parameters_dict[OF assms(2,3)] bnd_lift ret_apply
        collect_updates_dict)
  then show ?thesis
    by (simp add: todos_lambda_handler_def todos_put[OF assms(1)])
qed

text \<open>
  A search request whose body is the text of a dict: without a query, 400 and no call;
  with a query and no limit, the limit 5.
\<close>

lemma search_dict_body:
  assumes "json_loads w (dict_get event ''body'' (JStr ''{}'')) = Inr (JObj b)"
  shows "(\<not> truthy (dict_get b ''query'' JNull) \<longrightarrow>
            search_lambda_handler w event =
              (respond 400 (JObj [(''error'', JStr ''query parameter is required'')]), [])) \<and>
         (truthy (dict_get b ''query'' JNull) \<and> map_of b ''limit'' = None \<longrightarrow>
            snd (search_lambda_handler w event) =
              InvokeModel (JObj [(''inputText'', dict_get b ''query'' JNull)]) #
              (case fst (search_generate_embedding w (dict_get b ''query'' JNull) []) of
                 Inl e \<Rightarrow> []
               | Inr query_vector \<Rightarrow>
                   [MongoCall ''aggregate''
                      (JObj [(''database'', JStr ''travel''), (''collection'', JStr ''asia''),
                             (''pipeline'',
                              JArr [JObj [(''$vectorSearch'',
                                           JObj [(''index'', JStr ''vector_index''),
                                                 (''path'', JStr ''details_embedding''),
                                                 (''queryVector'', query_vector),
                                                 (''numCandidates'', JInt 100),
                                                 (''limit'', JInt 5)])],
                                    JObj [(''$project'',
                                           JObj [(''_id'', JInt 1),
                                                 (''index'', JInt 1),
                                                 (''Place Name'', JInt 1),
                                                 (''score'',
                                                  JObj [(''$meta'',
                                                         JStr ''vectorSearchScore'')])])]])])]))"
  using assms
  by (auto simp: search_lambda_handler_def search_try_def bnd_lift ret_apply bnd_embedding
      bnd_search_call search_generate_embedding_apply search_pipeline_def Let_def dict_get_def
      split: sum.splits prod.splits)

section \<open>The claims\<close>

text \<open>
  C1. An exception that a handler does not handle gives status 500 with the body
  \<open>{"error": "Internal server error"}\<close> and nothing of the exception in it. The search
  handler does so (\<open>search_handler_except\<close>). The todos handler does not: when listing
  the todos fails in the database call, its body carries the exception's message under
  \<open>details\<close>.
\<close>

theorem todos_handler_exposes_exception_message:
  "todos_lambda_handler demo_env [(''httpMethod'', JStr ''GET'')] =
     (respond 500 (JObj [(''error'', JStr ''Internal server error''),
                         (''details'', JStr ''MongoDB API error: 403'')]),
      [MongoCall ''find''
         (JObj [(''database'', JStr ''todos''), (''collection'', JStr ''items''),
                (''filter'', JObj [])])]) \<and>
   body (fst (todos_lambda_handler demo_env [(''httpMethod'', JStr ''GET'')])) \<noteq>
     JObj [(''error'', JStr ''Internal server error'')]"
  by (simp add: todos_lambda_handler_def todos_try_def handle_get_def path_parameters_def
      py_or_def dict_get_def bnd_def lift_def ret_def call_mongodb_api_def list_todos_def
      demo_env_def demo_mongodb_def respond_def)

text \<open>
  C3. A POST request whose body is a dict with a non-empty title, and with a
  description that is absent, null or a string, makes exactly one call, \<open>insertOne\<close>,
  whose document has the title, \<open>completed = False\<close>, \<open>created_at\<close> and \<open>updated_at\<close>
  equal to the same clock reading, and as description the empty string when the
  description is absent or null and the given description otherwise.
\<close>

theorem post_issues_insert:
  assumes "dict_get event ''httpMethod'' JNull = JStr ''POST''"
    and "json_loads w (dict_get event ''body'' (JStr ''{}'')) = Inr (JObj b)"
    and "truthy (dict_get b ''title'' JNull)"
    and "map_of b ''description'' = None \<or> map_of b ''description'' = Some JNull \<or>
         (\<exists>s. map_of b ''description'' = Some (JStr s))"
  shows "snd (todos_lambda_handler w event) =
           [MongoCall ''insertOne''
              (JObj [(''database'', JStr ''todos''), (''collection'', JStr ''items''),
                     (''document'',
                      JObj [(''title'', dict_get b ''title'' JNull),
                            (''description'',
                             if map_of b ''description'' = None \<or>
                                map_of b ''description'' = Some JNull
                             then JStr '''' else dict_get b ''description'' JNull),
                            (''completed'', JBool False),
                            (''created_at'', JStr (utcnow w)),
                            (''updated_at'', JStr (utcnow w))])])]"
proof -
  have calls: "snd (todos_lambda_handler w event) = snd (handle_post w event [])"
    using assms(1)
    by (simp add: todos_lambda_handler_def todos_try_def split: prod.splits sum.splits)
  have "(if truthy (dict_get b ''description'' JNull)
         then dict_get b ''description'' JNull else JStr '''') =
        (if map_of b ''description'' = None \<or> map_of b ''description'' = Some JNull
         then JStr '''' else dict_get b ''description'' JNull)"
    using assms(4) by (auto simp: dict_get_def)
  then show ?thesis
    using handle_post_calls[OF assms(2,3)] calls by simp
qed

theorem post_issues_insert_witness:
  \<open>(dict_get [(''httpMethod'', JStr ''POST''),
              (''body'', JStr ''{"title": "a", "description": "d"}'')]
       ''httpMethod'' JNull = JStr ''POST'' \<and>
    json_loads demo_env
      (dict_get [(''httpMethod'', JStr ''POST''),
                 (''body'', JStr ''{"title": "a", "description": "d"}'')]
         ''body'' (JStr ''{}'')) =
      Inr (JObj [(''title'', JStr ''a''), (''description'', JStr ''d'')]) \<and>
    truthy (dict_get [(''title'', JStr ''a''), (''description'', JStr ''d'')] ''title'' JNull) \<and>
    map_of [(''title'', JStr ''a''), (''description'', JStr ''d'')] ''description'' =
      Some (JStr ''d'') \<and>
    snd (todos_lambda_handler demo_env
           [(''httpMethod'', JStr ''POST''),
            (''body'', JStr ''{"title": "a", "description": "d"}'')]) =
      [MongoCall ''insertOne''
         (JObj [(''database'', JStr ''todos''), (''collection'', JStr ''items''),
                (''document'',
                 JObj [(''title'', JStr ''a''),
                       (''description'', JStr ''d''),
                       (''completed'', JBool False),
                       (''created_at'', JStr ''2024-01-01T00:00:00''),
                       (''updated_at'', JStr ''2024-01-01T00:00:00'')])])]) \<and>
   (dict_get [(''httpMethod'', JStr ''POST''), (''body'', JStr ''{"title": "a"}'')]
       ''httpMethod'' JNull = JStr ''POST'' \<and>
    json_loads demo_env
      (dict_get [(''httpMethod'', JStr ''POST''), (''body'', JStr ''{"title": "a"}'')]
         ''body'' (JStr ''{}'')) =
      Inr (JObj [(''title'', JStr ''a'')]) \<and>
    truthy (dict_get [(''title'', JStr ''a'')] ''title'' JNull) \<and>
    map_of [(''title'', JStr ''a'')] ''description'' = None \<and>
    snd (todos_lambda_handler demo_env
           [(''httpMethod'', JStr ''POST''), (''body'', JStr ''{"title": "a"}'')]) =
      [MongoCall ''insertOne''
         (JObj [(''database'', JStr ''todos''), (''collection'', JStr ''items''),
                (''document'',
                 JObj [(''title'', JStr ''a''),
                       (''description'', JStr ''''),
                       (''completed'', JBool False),
                       (''created_at'', JStr ''2024-01-01T00:00:00''),
                       (''updated_at'', JStr ''2024-01-01T00:00:00'')])])])\<close>
proof -
  let ?e1 = \<open>[(''httpMethod'', JStr ''POST''),
              (''body'', JStr ''{"title": "a", "description": "d"}'')]\<close>
  let ?e2 = \<open>[(''httpMethod'', JStr ''POST''), (''body'', JStr ''{"title": "a"}'')]\<close>
  let ?b1 = "[(''title'', JStr ''a''), (''description'', JStr ''d'')]"
  let ?b2 = "[(''title'', JStr ''a'')]"
  have m1: "dict_get ?e1 ''httpMethod'' JNull = JStr ''POST''"
    and m2: "dict_get ?e2 ''httpMethod'' JNull = JStr ''POST''"
    and t1: "truthy (dict_get ?b1 ''title'' JNull)"
    and t2: "truthy (dict_get ?b2 ''title'' JNull)"
    and d1: "map_of ?b1 ''description'' = Some (JStr ''d'')"
    and d2: "map_of ?b2 ''description'' = None"
    by (simp_all add: dict_get_def)
  have l1: "json_loads demo_env (dict_get ?e1 ''body'' (JStr ''{}'')) = Inr (JObj ?b1)"
    and l2: "json_loads demo_env (dict_get ?e2 ''body'' (JStr ''{}'')) = Inr (JObj ?b2)"
    by (simp_all add: dict_get_def demo_env_def demo_loads_def)
  have k1: "map_of ?b1 ''description'' = None \<or> map_of ?b1 ''description'' = Some JNull \<or>
            (\<exists>s. map_of ?b1 ''description'' = Some (JStr s))"
    and k2: "map_of ?b2 ''description'' = None \<or> map_of ?b2 ''description'' = Some JNull \<or>
            (\<exists>s. map_of ?b2 ''description'' = Some (JStr s))"
    by simp_all
  have c1: "snd (todos_lambda_handler demo_env ?e1) =
      [MongoCall ''insertOne''
         (JObj [(''database'', JStr ''todos''), (''collection'', JStr ''items''),
                (''document'',
                 JObj [(''title'', JStr ''a''),
                       (''description'', JStr ''d''),
                       (''completed'', JBool False),
                       (''created_at'', JStr ''2024-01-01T00:00:00''),
                       (''updated_at'', JStr ''2024-01-01T00:00:00'')])])]"
    using post_issues_insert[OF m1 l1 t1 k1] by (simp add: dict_get_def demo_env_def)
  have c2: "snd (todos_lambda_handler demo_env ?e2) =
      [MongoCall ''insertOne''
         (JObj [(''database'', JStr ''todos''), (''collection'', JStr ''items''),
                (''document'',
                 JObj [(''title'', JStr ''a''),
                       (''description'', JStr ''''),
                       (''completed'', JBool False),
                       (''created_at'', JStr ''2024-01-01T00:00:00''),
                       (''updated_at'', JStr ''2024-01-01T00:00:00'')])])]"
    using post_issues_insert[OF m2 l2 t2 k2] by (simp add: dict_get_def demo_env_def)
  show ?thesis
    by (intro conjI m1 m2 t1 t2 d1 d2 l1 l2 c1 c2)
qed

text \<open>
  C9. The \<open>updateOne\<close> call that \<open>update_todo\<close> makes for updates over the recognized
  fields sets \<open>updated_at\<close> to the clock reading, sets every field of the caller to the
  caller's value, sets nothing else, and so never sets \<open>created_at\<close>.
\<close>

theorem update_refreshes_updated_at:
  assumes "fst ` set updates \<subseteq> {''title'', ''description'', ''completed''}"
  shows "\<exists>set_doc.
           snd (update_todo w todo_id updates s) =
             s @ [MongoCall ''updateOne''
                    (JObj [(''database'', JStr ''todos''), (''collection'', JStr ''items''),
                           (''filter'', JObj [(''_id'', todo_id)]),
                           (''update'', JObj [(''$set'', JObj set_doc)])])] \<and>
           map_of set_doc ''updated_at'' = Some (JStr (utcnow w)) \<and>
           (\<forall>k v. map_of updates k = Some v \<longrightarrow> map_of set_doc k = Some v) \<and>
           fst ` set set_doc = fst ` set updates \<union> {''updated_at''} \<and>
           ''created_at'' \<notin> fst ` set set_doc"
proof -
  let ?d = "AList.update ''updated_at'' (JStr (utcnow w)) updates"
  have not_key: "map_of updates ''updated_at'' = None"
    using assms by (auto simp: map_of_eq_None_iff)
  have 1: "map_of ?d ''updated_at'' = Some (JStr (utcnow w))"
    by (simp add: update_conv')
  have 2: "\<forall>k v. map_of updates k = Some v \<longrightarrow> map_of ?d k = Some v"
    using not_key by (auto simp: update_conv')
  have 3: "fst ` set ?d = fst ` set updates \<union> {''updated_at''}"
    by (simp add: dom_update)
  have 4: "''created_at'' \<notin> fst ` set ?d"
    unfolding 3 using assms by auto
  show ?thesis
    using 1 2 3 4 by (intro exI[of _ ?d]) (simp add: update_todo_def call_apply Let_def)
qed

theorem update_refreshes_updated_at_witness:
  "fst ` set [(''completed'', JBool True)] \<subseteq> {''title'', ''description'', ''completed''} \<and>
   (\<exists>set_doc.
      snd (update_todo demo_env (JStr ''123'') [(''completed'', JBool True)] []) =
        [] @ [MongoCall ''updateOne''
               (JObj [(''database'', JStr ''todos''), (''collection'', JStr ''items''),
                      (''filter'', JObj [(''_id'', JStr ''123'')]),
                      (''update'', JObj [(''$set'', JObj set_doc)])])] \<and>
      map_of set_doc ''updated_at'' = Some (JStr (utcnow demo_env)) \<and>
      (\<forall>k v. map_of [(''completed'', JBool True)] k = Some v \<longrightarrow> map_of set_doc k = Some v) \<and>
      fst ` set set_doc = fst ` set [(''completed'', JBool True)] \<union> {''updated_at''} \<and>
      ''created_at'' \<notin> fst ` set set_doc)"
proof -
  have h: "fst ` set [(''completed'', JBool True)] \<subseteq>
             {''title'', ''description'', ''completed''}"
    by simp
  show ?thesis
    by (intro conjI h update_refreshes_updated_at[OF h])
qed

text \<open>
  C5. A PUT request with an id whose body has none of the recognized fields is to be
  answered 400 with \<open>{"error": "No fields to update"}\<close>, with no call made. The handler
  does so when the body is the text of a dict without them
  (\<open>put_dict_without_recognized_fields\<close>), and when the event has no \<open>body\<close> at all, for
  which it reads \<open>'{}'\<close>. But a request sent without a body reaches the handler with the
  body \<open>null\<close>, which the default does not replace: \<open>json.loads\<close> raises \<open>TypeError\<close>,
  and the answer is 500.
\<close>

theorem put_null_body_is_internal_error:
  "todos_lambda_handler w
     [(''httpMethod'', JStr ''PUT''), (''path'', JStr ''/todos/123''),
      (''pathParameters'', JObj [(''id'', JStr ''123'')]), (''body'', JNull)] =
     (respond 500 (JObj [(''error'', JStr ''Internal server error''),
                         (''details'', JStr (str_exc w TypeError))]), []) \<and>
   todos_lambda_handler demo_env
     [(''httpMethod'', JStr ''PUT''), (''path'', JStr ''/todos/123''),
      (''pathParameters'', JObj [(''id'', JStr ''123'')])] =
     (respond 400 (JObj [(''error'', JStr ''No fields to update'')]), [])"
  by (simp add: todos_lambda_handler_def todos_try_def handle_put_def path_parameters_def
      py_or_def dict_get_def bnd_lift ret_apply collect_updates_dict recognized_def
      demo_env_def demo_loads_def)

text \<open>
  C6. A PUT or DELETE request with no id in its path parameters (the path parameters
  are absent or null, or a dict in which \<open>id\<close> is absent or null) is answered 400
  with \<open>{"error": "todo id is required"}\<close>, and no call is made.
\<close>

theorem put_delete_without_id:
  assumes "dict_get event ''httpMethod'' JNull = JStr ''PUT'' \<or>
           dict_get event ''httpMethod'' JNull = JStr ''DELETE''"
    and "dict_get event ''pathParameters'' JNull = JNull \<or>
         (\<exists>pp. dict_get event ''pathParameters'' JNull = JObj pp \<and>
               dict_get pp ''id'' JNull = JNull)"
  shows "todos_lambda_handler w event =
           (respond 400 (JObj [(''error'', JStr ''todo id is required'')]), [])"
proof -
  have no_id: "py_get (path_parameters event) ''id'' JNull = Inr JNull"
    using assms(2) by (auto simp: path_parameters_def py_or_def dict_get_def)
  have "handle_put w event [] =
          (Inr (respond 400 (JObj [(''error'', JStr ''todo id is required'')])), [])"
    by (simp add: handle_put_def no_id bnd_lift ret_apply)
  moreover have "handle_delete w event [] =
          (Inr (respond 400 (JObj [(''error'', JStr ''todo id is required'')])), [])"
    by (simp add: handle_delete_def no_id bnd_lift ret_apply)
  ultimately show ?thesis
    using assms(1) by (auto simp: todos_lambda_handler_def todos_put todos_delete)
qed

theorem put_delete_without_id_witness:
  "(dict_get [(''httpMethod'', JStr ''DELETE''), (''pathParameters'', JNull)]
      ''httpMethod'' JNull = JStr ''PUT'' \<or>
    dict_get [(''httpMethod'', JStr ''DELETE''), (''pathParameters'', JNull)]
      ''httpMethod'' JNull = JStr ''DELETE'') \<and>
   (dict_get [(''httpMethod'', JStr ''DELETE''), (''pathParameters'', JNull)]
      ''pathParameters'' JNull = JNull \<or>
    (\<exists>pp. dict_get [(''httpMethod'', JStr ''DELETE''), (''pathParameters'', JNull)]
            ''pathParameters'' JNull = JObj pp \<and> dict_get pp ''id'' JNull = JNull)) \<and>
   todos_lambda_handler demo_env
     [(''httpMethod'', JStr ''DELETE''), (''pathParameters'', JNull)] =
     (respond 400 (JObj [(''error'', JStr ''todo id is required'')]), [])"
proof -
  let ?event = "[(''httpMethod'', JStr ''DELETE''), (''pathParameters'', JNull)]"
  have h1: "dict_get ?event ''httpMethod'' JNull = JStr ''PUT'' \<or>
            dict_get ?event ''httpMethod'' JNull = JStr ''DELETE''"
    by (simp add: dict_get_def)
  have h2: "dict_get ?event ''pathParameters'' JNull = JNull \<or>
            (\<exists>pp. dict_get ?event ''pathParameters'' JNull = JObj pp \<and>
                  dict_get pp ''id'' JNull = JNull)"
    by (simp add: dict_get_def)
  show ?thesis
    by (intro conjI h1 h2 put_delete_without_id[OF h1 h2])
qed

text \<open>
  C7. A search request whose body has no query, or an empty one, is to be answered 400
  with \<open>{"error": "query parameter is required"}\<close>, with neither the model nor the
  database called, and a query without a limit is to be searched with the limit 5. The
  handler does both when the body is the text of a dict (\<open>search_dict_body\<close>), and
  answers 400 when the event has no \<open>body\<close> at all, for which it reads \<open>'{}'\<close>. But a
  request sent without a body reaches the handler with the body \<open>null\<close>, which the
  default does not replace: \<open>json.loads\<close> raises \<open>TypeError\<close>, and the answer is 500.
\<close>

theorem search_null_body_is_internal_error:
  "search_lambda_handler w
     [(''httpMethod'', JStr ''POST''), (''path'', JStr ''/search''), (''body'', JNull)] =
     (respond 500 (JObj [(''error'', JStr ''Internal server error'')]), []) \<and>
   search_lambda_handler demo_env
     [(''httpMethod'', JStr ''POST''), (''path'', JStr ''/search'')] =
     (respond 400 (JObj [(''error'', JStr ''query parameter is required'')]), [])"
  by (simp add: search_lambda_handler_def search_try_def dict_get_def bnd_lift ret_apply
      demo_env_def demo_loads_def)

text \<open>
  C8. For every query vector \<open>V\<close> that the model yields and every limit \<open>L\<close> of the
  request, the pipeline that the search handler passes to \<open>aggregate\<close> has exactly two
  stages: \<open>$vectorSearch\<close> with the index \<open>vector_index\<close>, the path
  \<open>details_embedding\<close>, \<open>queryVector = V\<close>, \<open>numCandidates = 100\<close> and \<open>limit = L\<close>,
  then \<open>$project\<close> keeping \<open>_id\<close>, \<open>index\<close> and \<open>Place Name\<close> and taking \<open>score\<close>
  from the meta field \<open>vectorSearchScore\<close>. The test script passes the same two stages,
  with its own vector and the limit 5.
\<close>

theorem aggregate_pipeline_has_two_stages:
  assumes "json_loads w (dict_get event ''body'' (JStr ''{}'')) = Inr (JObj b)"
    and "truthy (dict_get b ''query'' JNull)"
    and "fst (search_generate_embedding w (dict_get b ''query'' JNull) []) = Inr V"
    and "dict_get b ''limit'' (JInt 5) = L"
  shows "snd (search_lambda_handler w event) =
           [InvokeModel (JObj [(''inputText'', dict_get b ''query'' JNull)]),
            MongoCall ''aggregate''
              (JObj [(''database'', JStr ''travel''), (''collection'', JStr ''asia''),
                     (''pipeline'',
                      JArr [JObj [(''$vectorSearch'',
                                   JObj [(''index'', JStr ''vector_index''),
                                         (''path'', JStr ''details_embedding''),
                                         (''queryVector'', V),
                                         (''numCandidates'', JInt 100),
                                         (''limit'', L)])],
                            JObj [(''$project'',
                                   JObj [(''_id'', JInt 1),
                                         (''index'', JInt 1),
                                         (''Place Name'', JInt 1),
                                         (''score'',
                                          JObj [(''$meta'', JStr ''vectorSearchScore'')])])]])])] \<and>
         (\<exists>V'. fst (test_api_generate_embedding w
                      (JStr ''Find travel recommendations for Asia'') []) = Inr V' \<and>
          snd (test_api_vector_search w []) =
           [InvokeModel (JObj [(''inputText'', JStr ''Find travel recommendations for Asia'')]),
            MongoCall ''aggregate''
              (JObj [(''database'', JStr ''travel''), (''collection'', JStr ''asia''),
                     (''pipeline'',
                      JArr [JObj [(''$vectorSearch'',
                                   JObj [(''index'', JStr ''vector_index''),
                                         (''path'', JStr ''details_embedding''),
                                         (''queryVector'', V'),
                                         (''numCandidates'', JInt 100),
                                         (''limit'', JInt 5)])],
                            JObj [(''$project'',
                                   JObj [(''_id'', JInt 1),
                                         (''index'', JInt 1),
                                         (''Place Name'', JInt 1),
                                         (''score'',
                                          JObj [(''$meta'', JStr ''vectorSearchScore'')])])]])])])"
proof (rule conjI)
  show "snd (search_lambda_handler w event) =
           [InvokeModel (JObj [(''inputText'', dict_get b ''query'' JNull)]),
            MongoCall ''aggregate''
              (JObj [(''database'', JStr ''travel''), (''collection'', JStr ''asia''),
                     (''pipeline'',
                      JArr [JObj [(''$vectorSearch'',
                                   JObj [(''index'', JStr ''vector_index''),
                                         (''path'', JStr ''details_embedding''),
                                         (''queryVector'', V),
                                         (''numCandidates'', JInt 100),
                                         (''limit'', L)])],
                            JObj [(''$project'',
                                   JObj [(''_id'', JInt 1),
                                         (''index'', JInt 1),
                                         (''Place Name'', JInt 1),
                                         (''score'',
                                          JObj [(''$meta'', JStr ''vectorSearchScore'')])])]])])]"
    using assms
    by (auto simp: search_lambda_handler_def search_try_def bnd_lift ret_apply bnd_embedding
        bnd_search_call search_generate_embedding_apply search_pipeline_def Let_def
        split: sum.splits prod.splits)
next
  show "\<exists>V'. fst (test_api_generate_embedding w
                      (JStr ''Find travel recommendations for Asia'') []) = Inr V' \<and>
          snd (test_api_vector_search w []) =
           [InvokeModel (JObj [(''inputText'', JStr ''Find travel recommendations for Asia'')]),
            MongoCall ''aggregate''
              (JObj [(''database'', JStr ''travel''), (''collection'', JStr ''asia''),
                     (''pipeline'',
                      JArr [JObj [(''$vectorSearch'',
                                   JObj [(''index'', JStr ''vector_index''),
                                         (''path'', JStr ''details_embedding''),
                                         (''queryVector'', V'),
                                         (''numCandidates'', JInt 100),
                                         (''limit'', JInt 5)])],
                            JObj [(''$project'',
                                   JObj [(''_id'', JInt 1),
                                         (''index'', JInt 1),
                                         (''Place Name'', JInt 1),
                                         (''score'',
                                          JObj [(''$meta'', JStr ''vectorSearchScore'')])])]])])]"
    by (cases "fst (embedding_try w (JStr ''Find travel recommendations for Asia'') [])")
      (auto simp: test_api_vector_search_def test_api_generate_embedding_def bnd_def
        make_request_def test_api_pipeline_def embedding_try_def split: sum.splits prod.splits)
qed

theorem aggregate_pipeline_has_two_stages_witness:
  \<open>json_loads demo_env
     (dict_get [(''body'', JStr ''{"query": "beach", "limit": 3}'')] ''body'' (JStr ''{}'')) =
     Inr (JObj [(''query'', JStr ''beach''), (''limit'', JInt 3)]) \<and>
   truthy (dict_get [(''query'', JStr ''beach''), (''limit'', JInt 3)] ''query'' JNull) \<and>
   fst (search_generate_embedding demo_env
          (dict_get [(''query'', JStr ''beach''), (''limit'', JInt 3)] ''query'' JNull) []) =
     Inr (JArr [JFloat (Fin (1 / 2))]) \<and>
   dict_get [(''query'', JStr ''beach''), (''limit'', JInt 3)] ''limit'' (JInt 5) = JInt 3 \<and>
   snd (search_lambda_handler demo_env
          [(''body'', JStr ''{"query": "beach", "limit": 3}'')]) =
     [InvokeModel (JObj [(''inputText'', JStr ''beach'')]),
      MongoCall ''aggregate''
        (JObj [(''database'', JStr ''travel''), (''collection'', JStr ''asia''),
               (''pipeline'',
                JArr [JObj [(''$vectorSearch'',
                             JObj [(''index'', JStr ''vector_index''),
                                   (''path'', JStr ''details_embedding''),
                                   (''queryVector'', JArr [JFloat (Fin (1 / 2))]),
                                   (''numCandidates'', JInt 100),
                                   (''limit'', JInt 3)])],
                      JObj [(''$project'',
                             JObj [(''_id'', JInt 1),
                                   (''index'', JInt 1),
                                   (''Place Name'', JInt 1),
                                   (''score'',
                                    JObj [(''$meta'', JStr ''vectorSearchScore'')])])]])])]\<close>
proof -
  let ?event = \<open>[(''body'', JStr ''{"query": "beach", "limit": 3}'')]\<close>
  let ?b = "[(''query'', JStr ''beach''), (''limit'', JInt 3)]"
  have h1: "json_loads demo_env (dict_get ?event ''body'' (JStr ''{}'')) = Inr (JObj ?b)"
    by (simp add: dict_get_def demo_env_def demo_loads_def)
  have h2: "truthy (dict_get ?b ''query'' JNull)"
    and h4: "dict_get ?b ''limit'' (JInt 5) = JInt 3"
    by (simp_all add: dict_get_def)
  have h3: "fst (search_generate_embedding demo_env (dict_get ?b ''query'' JNull) []) =
              Inr (JArr [JFloat (Fin (1 / 2))])"
    by (simp add: search_generate_embedding_apply embedding_try_def dict_get_def
        demo_env_def demo_bedrock_def demo_loads_def)
  have c: "snd (search_lambda_handler demo_env ?event) =
     [InvokeModel (JObj [(''inputText'', JStr ''beach'')]),
      MongoCall ''aggregate''
        (JObj [(''database'', JStr ''travel''), (''collection'', JStr ''asia''),
               (''pipeline'',
                JArr [JObj [(''$vectorSearch'',
                             JObj [(''index'', JStr ''vector_index''),
                                   (''path'', JStr ''details_embedding''),
                                   (''queryVector'', JArr [JFloat (Fin (1 / 2))]),
                                   (''numCandidates'', JInt 100),
                                   (''limit'', JInt 3)])],
                      JObj [(''$project'',
                             JObj [(''_id'', JInt 1),
                                   (''index'', JInt 1),
                                   (''Place Name'', JInt 1),
                                   (''score'',
                                    JObj [(''$meta'', JStr ''vectorSearchScore'')])])]])])]"
    using aggregate_pipeline_has_two_stages[OF h1 h2 h3 h4, THEN conjunct1]
    by (simp add: dict_get_def)
  show ?thesis
    by (intro conjI h1 h2 h3 h4 c)
qed

text \<open>
  C2. When the model invocation raises \<open>e\<close>, \<open>generate_embedding\<close> of the test script
  returns the example vector and \<open>generate_embedding\<close> of the search handler raises
  \<open>e\<close>. When the invocation succeeds and the decoded response is a dict with an
  \<open>embedding\<close> field, both return that field. The example vector is \<open>0.1\<close>, \<open>0.2\<close>,
  \<open>0.3\<close> followed by 1533 zeros, 1536 numbers in all.
\<close>

theorem embedding_fallback_and_reraise:
  "(bedrock w (JObj [(''inputText'', text)]) = Inl e \<longrightarrow>
      fst (test_api_generate_embedding w text s) = Inr fallback_vector \<and>
      fst (search_generate_embedding w text s) = Inl e) \<and>
   (bedrock w (JObj [(''inputText'', text)]) = Inr raw \<and> loads w raw = Some (JObj d) \<and>
    map_of d ''embedding'' = Some v \<longrightarrow>
      fst (test_api_generate_embedding w text s) = Inr v \<and>
      fst (search_generate_embedding w text s) = Inr v) \<and>
   (\<exists>xs. fallback_vector = JArr xs \<and> length xs = 1536 \<and>
         take 3 xs = [JFloat (Fin (3602879701896397 / 36028797018963968)),
                      JFloat (Fin (3602879701896397 / 18014398509481984)),
                      JFloat (Fin (5404319552844595 / 18014398509481984))] \<and>
         drop 3 xs = replicate 1533 (JFloat (Fin 0)))"
  by (auto simp: test_api_generate_embedding_def search_generate_embedding_def
      embedding_try_def fallback_vector_def)

theorem embedding_fallback_and_reraise_witness:
  \<open>(bedrock demo_env (JObj [(''inputText'', JStr ''hills'')]) = Inl (Raised ''timeout'') \<and>
    fst (test_api_generate_embedding demo_env (JStr ''hills'') []) = Inr fallback_vector \<and>
    fst (search_generate_embedding demo_env (JStr ''hills'') []) = Inl (Raised ''timeout'')) \<and>
   (bedrock demo_env (JObj [(''inputText'', JStr ''beach'')]) = Inr ''{"embedding": [0.5]}'' \<and>
    loads demo_env ''{"embedding": [0.5]}'' =
      Some (JObj [(''embedding'', JArr [JFloat (Fin (1 / 2))])]) \<and>
    map_of [(''embedding'', JArr [JFloat (Fin (1 / 2))])] ''embedding'' =
      Some (JArr [JFloat (Fin (1 / 2))]) \<and>
    fst (test_api_generate_embedding demo_env (JStr ''beach'') []) =
      Inr (JArr [JFloat (Fin (1 / 2))]) \<and>
    fst (search_generate_embedding demo_env (JStr ''beach'') []) =
      Inr (JArr [JFloat (Fin (1 / 2))]))\<close>
proof -
  have f: "bedrock demo_env (JObj [(''inputText'', JStr ''hills'')]) = Inl (Raised ''timeout'')"
    by (simp add: demo_env_def demo_bedrock_def)
  have g1: \<open>bedrock demo_env (JObj [(''inputText'', JStr ''beach'')]) =
              Inr ''{"embedding": [0.5]}''\<close>
    by (simp add: demo_env_def demo_bedrock_def)
  have g2: \<open>loads demo_env ''{"embedding": [0.5]}'' =
              Some (JObj [(''embedding'', JArr [JFloat (Fin (1 / 2))])])\<close>
    by (simp add: demo_env_def demo_loads_def)
  have g3: "map_of [(''embedding'', JArr [JFloat (Fin (1 / 2))])] ''embedding'' =
              Some (JArr [JFloat (Fin (1 / 2))])"
    by simp
  note t1 = embedding_fallback_and_reraise
    [of demo_env "JStr ''hills''" "Raised ''timeout''" "[]", THEN conjunct1, rule_format, OF f]
  note t2 = embedding_fallback_and_reraise
    [of demo_env "JStr ''beach''" _ "[]", THEN conjunct2, THEN conjunct1, rule_format,
      OF conjI[OF g1 conjI[OF g2 g3]]]
  show ?thesis
    by (intro conjI f g1 g2 g3 t1[THEN conjunct1] t1[THEN conjunct2]
        t2[THEN conjunct1] t2[THEN conjunct2])
qed

text \<open>
  C10. A PUT request with an id and at least one recognized field is answered 404 with
  \<open>{"error": "Todo not found"}\<close> whenever the response to its \<open>updateOne\<close> call has
  no \<open>modifiedCount\<close> or has \<open>modifiedCount = 0\<close>, whatever else the response says
  (a \<open>matchedCount\<close> of 1, for one). A DELETE request with an id is answered the same
  whenever the response to its \<open>deleteOne\<close> call has no \<open>deletedCount\<close> or has
  \<open>deletedCount = 0\<close>.
\<close>

theorem unmodified_or_undeleted_is_not_found:
  "(dict_get event ''httpMethod'' JNull = JStr ''PUT'' \<and>
    dict_get event ''pathParameters'' JNull = JObj pp \<and>
    truthy (dict_get pp ''id'' JNull) \<and>
    json_loads w (dict_get event ''body'' (JStr ''{}'')) = Inr (JObj b) \<and>
    (map_of b ''title'' \<noteq> None \<or> map_of b ''description'' \<noteq> None \<or>
     map_of b ''completed'' \<noteq> None) \<and>
    snd (todos_lambda_handler w event) = [MongoCall ''updateOne'' d] \<and>
    mongodb w ''updateOne'' d = Inr (JObj r) \<and>
    (map_of r ''modifiedCount'' = None \<or> map_of r ''modifiedCount'' = Some (JInt 0))
    \<longrightarrow> fst (todos_lambda_handler w event) =
          respond 404 (JObj [(''error'', JStr ''Todo not found'')])) \<and>
   (dict_get event ''httpMethod'' JNull = JStr ''DELETE'' \<and>
    dict_get event ''pathParameters'' JNull = JObj pp \<and>
    truthy (dict_get pp ''id'' JNull) \<and>
    snd (todos_lambda_handler w event) = [MongoCall ''deleteOne'' d] \<and>
    mongodb w ''deleteOne'' d = Inr (JObj r) \<and>
    (map_of r ''deletedCount'' = None \<or> map_of r ''deletedCount'' = Some (JInt 0))
    \<longrightarrow> fst (todos_lambda_handler w event) =
          respond 404 (JObj [(''error'', JStr ''Todo not found'')]))"
proof (intro conjI impI; elim conjE)
  assume m: "dict_get event ''httpMethod'' JNull = JStr ''PUT''"
    and p: "dict_get event ''pathParameters'' JNull = JObj pp"
    and i: "truthy (dict_get pp ''id'' JNull)"
    and l: "json_loads w (dict_get event ''body'' (JStr ''{}'')) = Inr (JObj b)"
    and f: "map_of b ''title'' \<noteq> None \<or> map_of b ''description'' \<noteq> None \<or>
            map_of b ''completed'' \<noteq> None"
    and c: "snd (todos_lambda_handler w event) = [MongoCall ''updateOne'' d]"
    and a: "mongodb w ''updateOne'' d = Inr (JObj r)"
    and z: "map_of r ''modifiedCount'' = None \<or> map_of r ''modifiedCount'' = Some (JInt 0)"
  have ne: "recognized b \<noteq> []"
    using f by (simp add: recognized_empty)
  note h = handle_put_dict[OF p i l ne]
  from c have "mongodb w ''updateOne'' d = Inr (JObj r) \<Longrightarrow>
      fst (todos_lambda_handler w event) =
          respond 404 (JObj [(''error'', JStr ''Todo not found'')])"
    using z
    by (auto simp: todos_lambda_handler_def todos_put[OF m] h update_todo_def Let_def
        bnd_call bnd_lift ret_apply dict_get_def split: sum.splits prod.splits)
  then show "fst (todos_lambda_handler w event) =
          respond 404 (JObj [(''error'', JStr ''Todo not found'')])"
    using a by simp
next
  assume m: "dict_get event ''httpMethod'' JNull = JStr ''DELETE''"
    and p: "dict_get event ''pathParameters'' JNull = JObj pp"
    and i: "truthy (dict_get pp ''id'' JNull)"
    and c: "snd (todos_lambda_handler w event) = [MongoCall ''deleteOne'' d]"
    and a: "mongodb w ''deleteOne'' d = Inr (JObj r)"
    and z: "map_of r ''deletedCount'' = None \<or> map_of r ''deletedCount'' = Some (JInt 0)"
  note h = handle_delete_dict[OF p i]
  from c have "mongodb w ''deleteOne'' d = Inr (JObj r) \<Longrightarrow>
      fst (todos_lambda_handler w event) =
          respond 404 (JObj [(''error'', JStr ''Todo not found'')])"
    using z
    by (auto simp: todos_lambda_handler_def todos_delete[OF m] h delete_todo_def Let_def
        bnd_call bnd_lift ret_apply dict_get_def split: sum.splits prod.splits)
  then show "fst (todos_lambda_handler w event) =
          respond 404 (JObj [(''error'', JStr ''Todo not found'')])"
    using a by simp
qed

theorem unmodified_or_undeleted_is_not_found_witness:
  \<open>(dict_get [(''httpMethod'', JStr ''PUT''),
              (''pathParameters'', JObj [(''id'', JStr ''123'')]),
              (''body'', JStr ''{"completed": true}'')] ''httpMethod'' JNull = JStr ''PUT'' \<and>
    dict_get [(''httpMethod'', JStr ''PUT''),
              (''pathParameters'', JObj [(''id'', JStr ''123'')]),
              (''body'', JStr ''{"completed": true}'')] ''pathParameters'' JNull =
      JObj [(''id'', JStr ''123'')] \<and>
    truthy (dict_get [(''id'', JStr ''123'')] ''id'' JNull) \<and>
    json_loads demo_env
      (dict_get [(''httpMethod'', JStr ''PUT''),
                 (''pathParameters'', JObj [(''id'', JStr ''123'')]),
                 (''body'', JStr ''{"completed": true}'')] ''body'' (JStr ''{}'')) =
      Inr (JObj [(''completed'', JBool True)]) \<and>
    map_of [(''completed'', JBool True)] ''completed'' \<noteq> None \<and>
    snd (todos_lambda_handler demo_env
           [(''httpMethod'', JStr ''PUT''),
            (''pathParameters'', JObj [(''id'', JStr ''123'')]),
            (''body'', JStr ''{"completed": true}'')]) =
      [MongoCall ''updateOne''
         (JObj [(''database'', JStr ''todos''), (''collection'', JStr ''items''),
                (''filter'', JObj [(''_id'', JStr ''123'')]),
                (''update'',
                 JObj [(''$set'',
                        JObj [(''completed'', JBool True),
                              (''updated_at'', JStr ''2024-01-01T00:00:00'')])])])] \<and>
    mongodb demo_env ''updateOne''
      (JObj [(''database'', JStr ''todos''), (''collection'', JStr ''items''),
             (''filter'', JObj [(''_id'', JStr ''123'')]),
             (''update'',
              JObj [(''$set'',
                     JObj [(''completed'', JBool True),
                           (''updated_at'', JStr ''2024-01-01T00:00:00'')])])]) =
      Inr (JObj [(''matchedCount'', JInt 1), (''modifiedCount'', JInt 0)]) \<and>
    map_of [(''matchedCount'', JInt 1), (''modifiedCount'', JInt 0)] ''modifiedCount'' =
      Some (JInt 0) \<and>
    fst (todos_lambda_handler demo_env
           [(''httpMethod'', JStr ''PUT''),
            (''pathParameters'', JObj [(''id'', JStr ''123'')]),
            (''body'', JStr ''{"completed": true}'')]) =
      respond 404 (JObj [(''error'', JStr ''Todo not found'')])) \<and>
   (dict_get [(''httpMethod'', JStr ''DELETE''),
              (''pathParameters'', JObj [(''id'', JStr ''123'')])] ''httpMethod'' JNull =
      JStr ''DELETE'' \<and>
    dict_get [(''httpMethod'', JStr ''DELETE''),
              (''pathParameters'', JObj [(''id'', JStr ''123'')])] ''pathParameters'' JNull =
      JObj [(''id'', JStr ''123'')] \<and>
    snd (todos_lambda_handler demo_env
           [(''httpMethod'', JStr ''DELETE''),
            (''pathParameters'', JObj [(''id'', JStr ''123'')])]) =
      [MongoCall ''deleteOne''
         (JObj [(''database'', JStr ''todos''), (''collection'', JStr ''items''),
                (''filter'', JObj [(''_id'', JStr ''123'')])])] \<and>
    mongodb demo_env ''deleteOne''
      (JObj [(''database'', JStr ''todos''), (''collection'', JStr ''items''),
             (''filter'', JObj [(''_id'', JStr ''123'')])]) =
      Inr (JObj [(''deletedCount'', JInt 0)]) \<and>
    map_of [(''deletedCount'', JInt 0)] ''deletedCount'' = Some (JInt 0) \<and>
    fst (todos_lambda_handler demo_env
           [(''httpMethod'', JStr ''DELETE''),
            (''pathParameters'', JObj [(''id'', JStr ''123'')])]) =
      respond 404 (JObj [(''error'', JStr ''Todo not found'')]))\<close>
proof -
  let ?put = \<open>[(''httpMethod'', JStr ''PUT''),
               (''pathParameters'', JObj [(''id'', JStr ''123'')]),
               (''body'', JStr ''{"completed": true}'')]\<close>
  let ?del = "[(''httpMethod'', JStr ''DELETE''),
               (''pathParameters'', JObj [(''id'', JStr ''123'')])]"
  let ?pp = "[(''id'', JStr ''123'')]"
  let ?b = "[(''completed'', JBool True)]"
  let ?upd = "JObj [(''database'', JStr ''todos''), (''collection'', JStr ''items''),
                    (''filter'', JObj [(''_id'', JStr ''123'')]),
                    (''update'',
                     JObj [(''$set'',
                            JObj [(''completed'', JBool True),
                                  (''updated_at'', JStr ''2024-01-01T00:00:00'')])])]"
  let ?rm = "JObj [(''database'', JStr ''todos''), (''collection'', JStr ''items''),
                   (''filter'', JObj [(''_id'', JStr ''123'')])]"
  let ?r1 = "[(''matchedCount'', JInt 1), (''modifiedCount'', JInt 0)]"
  let ?r2 = "[(''deletedCount'', JInt 0)]"
  have p1: "dict_get ?put ''httpMethod'' JNull = JStr ''PUT''"
    and p2: "dict_get ?put ''pathParameters'' JNull = JObj ?pp"
    and p3: "truthy (dict_get ?pp ''id'' JNull)"
    and p5: "map_of ?b ''completed'' \<noteq> None"
    and p8: "map_of ?r1 ''modifiedCount'' = Some (JInt 0)"
    and d1: "dict_get ?del ''httpMethod'' JNull = JStr ''DELETE''"
    and d2: "dict_get ?del ''pathParameters'' JNull = JObj ?pp"
    and d6: "map_of ?r2 ''deletedCount'' = Some (JInt 0)"
    by (simp_all add: dict_get_def)
  have p4: "json_loads demo_env (dict_get ?put ''body'' (JStr ''{}'')) = Inr (JObj ?b)"
    by (simp add: dict_get_def demo_env_def demo_loads_def)
  have ne: "recognized ?b \<noteq> []"
    by (simp add: recognized_def)
  have p6: "snd (todos_lambda_handler demo_env ?put) = [MongoCall ''updateOne'' ?upd]"
    unfolding todos_lambda_handler_def todos_put[OF p1] handle_put_dict[OF p2 p3 p4 ne]
    by (simp add: bnd_lift bnd_call ret_apply recognized_def update_todo_def Let_def
        dict_get_def demo_env_def demo_mongodb_def)
  have p7: "mongodb demo_env ''updateOne'' ?upd = Inr (JObj ?r1)"
    by (simp add: demo_env_def demo_mongodb_def)
  have d4: "snd (todos_lambda_handler demo_env ?del) = [MongoCall ''deleteOne'' ?rm]"
    unfolding todos_lambda_handler_def todos_delete[OF d1] handle_delete_dict[OF d2 p3]
    by (simp add: bnd_lift bnd_call ret_apply delete_todo_def dict_get_def
        demo_env_def demo_mongodb_def)
  have d5: "mongodb demo_env ''deleteOne'' ?rm = Inr (JObj ?r2)"
    by (simp add: demo_env_def demo_mongodb_def)
  note t = unmodified_or_undeleted_is_not_found
    [of ?put ?pp demo_env ?b ?upd ?r1]
  note u = unmodified_or_undeleted_is_not_found
    [of ?del ?pp demo_env "[]" ?rm ?r2]
  have c1: "fst (todos_lambda_handler demo_env ?put) =
              respond 404 (JObj [(''error'', JStr ''Todo not found'')])"
    using t p1 p2 p3 p4 p5 p6 p7 p8 by blast
  have c2: "fst (todos_lambda_handler demo_env ?del) =
              respond 404 (JObj [(''error'', JStr ''Todo not found'')])"
    using u d1 d2 p3 d4 d5 d6 by blast
  show ?thesis
    by (intro conjI p1 p2 p3 p4 p5 p6 p7 p8 d1 d2 d4 d5 d6 c1 c2)
qed

section \<open>The importer, row by row\<close>













lemma cell_items_append: "cell_items (xs @ ys) = cell_items xs @ cell_items ys"
  by (simp add: cell_items_def)














text \<open>
  What the provisos of the next statement keep out: a row longer than the header has the
  key \<open>None\<close>, on which the loop over the columns raises; of two columns with one name
  the reader keeps the cell of the last.
\<close>

lemma import_long_row_raises:
  "import_csv demo_float demo_insert_one [[''a'', ''b''], [''x'', ''y'', ''EXTRA'']] =
     (Some AttributeError, 2, [])"
  by (simp add: import_csv_def dict_reader_def dict_reader_row_def dict_zip_def
      build_record_def row_getitem_def startswith_def Let_def)

lemma import_repeated_name:
  "import_csv demo_float demo_insert_one [[''a'', ''a''], [''x'', ''y'']] =
     (None, 2, [[(''a'', JStr ''y''), (''index'', JInt 1), (''details_embedding'', JArr [])]])"
  by (simp add: import_csv_def dict_reader_def dict_reader_row_def dict_zip_def
      build_record_def row_getitem_def startswith_def demo_insert_one_def Let_def)




end
